theory Spec2Isabelle
  imports Complex_Main
begin

section \<open>Python values read by the AccuWeather weather entity\<close>

text \<open>
  The coordinator's data is the decoded JSON payload of the vendor: nested mappings with
  string keys, lists and scalars. A finite Python float is the rational it denotes; the
  entity never computes with the scalars it reads, it only passes them on.
\<close>

datatype pyval =
    PNone
  | PBool bool
  | PInt int
  | PFloat rat
  | PStr string
  | PList "pyval list"
  | PDict "(string \<times> pyval) list"

text \<open>The exceptions the entity's property bodies can raise.\<close>

datatype py_error = KeyError | TypeError | IndexError | ValueError

type_synonym 'a result = "py_error + 'a"

text \<open>Sequencing of two evaluations: the first exception raised ends the evaluation.\<close>

definition and_then :: "'a result \<Rightarrow> ('a \<Rightarrow> 'b result) \<Rightarrow> 'b result" where
  "and_then r f = (case r of Inl e \<Rightarrow> Inl e | Inr x \<Rightarrow> f x)"

text \<open>
  \<^verbatim>\<open>obj[key]\<close> with a string key. A mapping without the key raises KeyError; a list
  or a string refuses a string index and a scalar is not subscriptable, both TypeError.
\<close>

fun subscript :: "pyval \<Rightarrow> string \<Rightarrow> pyval result" where
  "subscript (PDict kvs) k = (case map_of kvs k of None \<Rightarrow> Inl KeyError | Some v \<Rightarrow> Inr v)"
| "subscript _ k = Inl TypeError"

text \<open>\<^verbatim>\<open>bool(obj)\<close>, the test of \<^verbatim>\<open>if not obj\<close>.\<close>

fun truthy :: "pyval \<Rightarrow> bool" where
  "truthy PNone = False"
| "truthy (PBool b) = b"
| "truthy (PInt i) = (i \<noteq> 0)"
| "truthy (PFloat r) = (r \<noteq> 0)"
| "truthy (PStr s) = (s \<noteq> [])"
| "truthy (PList xs) = (xs \<noteq> [])"
| "truthy (PDict kvs) = (kvs \<noteq> [])"

text \<open>
  \<^verbatim>\<open>x == n\<close> for an integer \<open>n\<close> of the condition table: numbers compare by value
  (\<^verbatim>\<open>True == 1\<close>, \<^verbatim>\<open>1.0 == 1\<close>), anything else is unequal to an integer.
\<close>

fun py_eq_int :: "pyval \<Rightarrow> int \<Rightarrow> bool" where
  "py_eq_int (PInt i) n = (i = n)"
| "py_eq_int (PBool b) n = ((if b then 1 else 0) = n)"
| "py_eq_int (PFloat r) n = (r = of_int n)"
| "py_eq_int _ n = False"

text \<open>\<^verbatim>\<open>x in v\<close> for a list \<open>v\<close> of integers.\<close>

definition py_in :: "pyval \<Rightarrow> int list \<Rightarrow> bool" where
  "py_in x v = list_ex (py_eq_int x) v"

section \<open>Constants of the integration and the coordinator\<close>

text \<open>
  \<^verbatim>\<open>API_METRIC\<close>, \<^verbatim>\<open>ATTR_FORECAST\<close>, \<^verbatim>\<open>ATTRIBUTION\<close> and
  \<^verbatim>\<open>CONDITION_CLASSES\<close> are imported from the integration's \<^verbatim>\<open>const\<close> module.
  They are parameters here. \<^verbatim>\<open>CONDITION_CLASSES\<close> is a dict from a condition name to
  a list of icon codes; a dict iterates in insertion order, so it is an association list.
\<close>

record const_module =
  API_METRIC :: string
  ATTR_FORECAST :: string
  ATTRIBUTION :: string
  CONDITION_CLASSES :: "(string \<times> int list) list"

text \<open>
  What the entity reads of its \<^verbatim>\<open>AccuWeatherDataUpdateCoordinator\<close>: the data of the
  last fetch, the forecast attribute, the location key and the device information. The
  class itself is declared elsewhere, so the data and the forecast attribute may be any
  value here.
\<close>

record AccuWeatherDataUpdateCoordinator =
  data :: pyval
  coordinator_forecast :: pyval
  location_key :: string
  device_info :: pyval

text \<open>The members of the unit enumerations that the constructor names.\<close>

datatype unit_of_measurement = MILLIMETERS | HPA | CELSIUS | KILOMETERS | KILOMETERS_PER_HOUR

text \<open>The entity: its coordinator and the attributes the constructor sets.\<close>

record AccuWeatherEntity =
  coordinator :: AccuWeatherDataUpdateCoordinator
  attr_native_precipitation_unit :: unit_of_measurement
  attr_native_pressure_unit :: unit_of_measurement
  attr_native_temperature_unit :: unit_of_measurement
  attr_native_visibility_unit :: unit_of_measurement
  attr_native_wind_speed_unit :: unit_of_measurement
  attr_unique_id :: string
  attr_attribution :: string
  attr_device_info :: pyval

text \<open>
  \<^verbatim>\<open>AccuWeatherEntity.__init__\<close>. The constructor of the base class keeps the
  coordinator; the other attributes are assigned one by one.
\<close>

definition init :: "const_module \<Rightarrow> AccuWeatherDataUpdateCoordinator \<Rightarrow> AccuWeatherEntity" where
  "init K c =
     \<lparr> coordinator = c,
       attr_native_precipitation_unit = MILLIMETERS,
       attr_native_pressure_unit = HPA,
       attr_native_temperature_unit = CELSIUS,
       attr_native_visibility_unit = KILOMETERS,
       attr_native_wind_speed_unit = KILOMETERS_PER_HOUR,
       attr_unique_id = location_key c,
       attr_attribution = ATTRIBUTION K,
       attr_device_info = device_info c \<rparr>"

section \<open>Condition classification\<close>

text \<open>
  \<^verbatim>\<open>[k for k, v in CONDITION_CLASSES.items() if obj[key] in v]\<close>: the subscript is
  evaluated once per table entry, so it raises only when the table has an entry.
\<close>

fun matching_conditions ::
  "(string \<times> int list) list \<Rightarrow> pyval \<Rightarrow> string \<Rightarrow> string list result" where
  "matching_conditions [] obj key = Inr []"
| "matching_conditions ((k, v) # rest) obj key =
     and_then (subscript obj key) (\<lambda>icon.
     and_then (matching_conditions rest obj key) (\<lambda>ks.
       Inr (if py_in icon v then k # ks else ks)))"

text \<open>\<^verbatim>\<open>xs[0]\<close>.\<close>

definition first_item :: "'a list \<Rightarrow> 'a result" where
  "first_item xs = (case xs of [] \<Rightarrow> Inl IndexError | x # _ \<Rightarrow> Inr x)"

text \<open>
  The property \<^verbatim>\<open>condition\<close>: the first matching name, and None when the
  IndexError of \<^verbatim>\<open>[0]\<close> is caught. Any other exception passes through.
\<close>

definition condition :: "const_module \<Rightarrow> AccuWeatherEntity \<Rightarrow> string option result" where
  "condition K self =
     (case and_then
             (matching_conditions (CONDITION_CLASSES K) (data (coordinator self)) ''WeatherIcon'')
             first_item of
        Inl IndexError \<Rightarrow> Inr None
      | Inl e \<Rightarrow> Inl e
      | Inr k \<Rightarrow> Inr (Some k))"

section \<open>Scalar readings\<close>

text \<open>\<^verbatim>\<open>obj[k1][k2]...\<close>, the subscripts applied from left to right.\<close>

fun subscripts :: "pyval \<Rightarrow> string list \<Rightarrow> pyval result" where
  "subscripts obj [] = Inr obj"
| "subscripts obj (k # ks) = and_then (subscript obj k) (\<lambda>v. subscripts v ks)"

text \<open>\<^verbatim>\<open>cast(float, x)\<close> and \<^verbatim>\<open>cast(int, x)\<close> return \<open>x\<close> as it is.\<close>

definition native_temperature :: "const_module \<Rightarrow> AccuWeatherEntity \<Rightarrow> pyval result" where
  "native_temperature K self =
     subscripts (data (coordinator self)) [''Temperature'', API_METRIC K, ''Value'']"

definition native_pressure :: "const_module \<Rightarrow> AccuWeatherEntity \<Rightarrow> pyval result" where
  "native_pressure K self =
     subscripts (data (coordinator self)) [''Pressure'', API_METRIC K, ''Value'']"

definition humidity :: "const_module \<Rightarrow> AccuWeatherEntity \<Rightarrow> pyval result" where
  "humidity K self = subscripts (data (coordinator self)) [''RelativeHumidity'']"

definition native_wind_speed :: "const_module \<Rightarrow> AccuWeatherEntity \<Rightarrow> pyval result" where
  "native_wind_speed K self =
     subscripts (data (coordinator self)) [''Wind'', ''Speed'', API_METRIC K, ''Value'']"

definition wind_bearing :: "const_module \<Rightarrow> AccuWeatherEntity \<Rightarrow> pyval result" where
  "wind_bearing K self =
     subscripts (data (coordinator self)) [''Wind'', ''Direction'', ''Degrees'']"

definition native_visibility :: "const_module \<Rightarrow> AccuWeatherEntity \<Rightarrow> pyval result" where
  "native_visibility K self =
     subscripts (data (coordinator self)) [''Visibility'', API_METRIC K, ''Value'']"

section \<open>Timestamps\<close>

text \<open>
  \<^verbatim>\<open>utc_from_timestamp\<close> comes from \<^verbatim>\<open>homeassistant.util.dt\<close>, which is not
  among the sources at hand, and \<^verbatim>\<open>isoformat\<close> from the language's library. This
  section models both from what the specification asks of them: an epoch timestamp in
  seconds becomes the ISO-8601 form of the same instant in UTC.
\<close>

text \<open>
  Modelled from the spec: the value \<^verbatim>\<open>utc_from_timestamp\<close> returns, a date and time
  of day in UTC.
\<close>

record datetime =
  year :: int
  month :: int
  day :: int
  hour :: int
  minute :: int
  second :: int
  microsecond :: int

text \<open>
  Modelled from the spec: the calendar of ISO-8601, the proleptic Gregorian one, with days
  numbered from 1 on 0001-01-01: the tables of the months, the leap years, and the number
  of the day \<open>d\<close> of the month \<open>m\<close> of the year \<open>y\<close>.
\<close>

definition DAYS_IN_MONTH :: "int list" where
  "DAYS_IN_MONTH = [-1, 31, 28, 31, 30, 31, 30, 31, 31, 30, 31, 30, 31]"

definition DAYS_BEFORE_MONTH :: "int list" where
  "DAYS_BEFORE_MONTH = [-1, 0, 31, 59, 90, 120, 151, 181, 212, 243, 273, 304, 334]"

definition is_leap :: "int \<Rightarrow> bool" where
  "is_leap y = (y mod 4 = 0 \<and> (y mod 100 \<noteq> 0 \<or> y mod 400 = 0))"

definition days_before_year :: "int \<Rightarrow> int" where
  "days_before_year y = (let p = y - 1 in p * 365 + p div 4 - p div 100 + p div 400)"

definition days_in_month :: "int \<Rightarrow> int \<Rightarrow> int" where
  "days_in_month y m = (if m = 2 \<and> is_leap y then 29 else DAYS_IN_MONTH ! nat m)"

definition days_before_month :: "int \<Rightarrow> int \<Rightarrow> int" where
  "days_before_month y m = DAYS_BEFORE_MONTH ! nat m + (if 2 < m \<and> is_leap y then 1 else 0)"

definition ymd2ord :: "int \<Rightarrow> int \<Rightarrow> int \<Rightarrow> int" where
  "ymd2ord y m d = days_before_year y + days_before_month y m + d"

text \<open>
  Modelled from the spec: from a day number to year, month and day. The count of days is split into cycles of 400
  years (146097 days), of 100 years, of 4 years and single years; the last day of a
  4-year or 400-year cycle is the 31st of December of a leap year. The month of the day
  \<open>n\<close> of a year, counted from 0, is estimated as \<open>(n + 50) div 32\<close> and the estimate is
  lowered by one when it is too large.
\<close>

definition month_day :: "bool \<Rightarrow> int \<Rightarrow> int \<times> int" where
  "month_day leapyear n =
     (let m = (n + 50) div 32;
          preceding = DAYS_BEFORE_MONTH ! nat m + (if 2 < m \<and> leapyear then 1 else 0)
      in if n < preceding
         then (m - 1,
               n - (preceding - (DAYS_IN_MONTH ! nat (m - 1)
                                   + (if m - 1 = 2 \<and> leapyear then 1 else 0))) + 1)
         else (m, n - preceding + 1))"

definition ord2ymd :: "int \<Rightarrow> int \<times> int \<times> int" where
  "ord2ymd ordinal =
     (let n400 = (ordinal - 1) div 146097; r400 = (ordinal - 1) mod 146097;
          n100 = r400 div 36524; r100 = r400 mod 36524;
          n4 = r100 div 1461; r4 = r100 mod 1461;
          n1 = r4 div 365; n = r4 mod 365;
          y = n400 * 400 + 1 + n100 * 100 + n4 * 4 + n1
      in if n1 = 4 \<or> n100 = 4 then (y - 1, 12, 31)
         else (y, month_day (n1 = 3 \<and> (n4 \<noteq> 24 \<or> n100 = 3)) n))"

text \<open>
  Modelled from the spec: the instant \<open>t\<close> microseconds after the epoch, 1970-01-01
  being day 719163. A \<^verbatim>\<open>datetime\<close> holds the years 1 to 9999 and the conversion
  fails outside them.
\<close>

definition from_microseconds :: "int \<Rightarrow> datetime result" where
  "from_microseconds t =
     (let secs = t div 1000000;
          sod = secs mod 86400;
          (y, m, d) = ord2ymd (secs div 86400 + 719163)
      in if y < 1 \<or> 9999 < y then Inl ValueError
         else Inr \<lparr> year = y, month = m, day = d,
                    hour = sod div 3600, minute = sod mod 3600 div 60, second = sod mod 60,
                    microsecond = t mod 1000000 \<rparr>)"

text \<open>Rounding to the nearest integer, a tie going to the even neighbour.\<close>

definition round_half_even :: "rat \<Rightarrow> int" where
  "round_half_even r =
     (let f = \<lfloor>r\<rfloor>; d = r - of_int f
      in if d < 1 / 2 then f else if 1 / 2 < d then f + 1 else if even f then f else f + 1)"

text \<open>
  Modelled from the spec: \<^verbatim>\<open>utc_from_timestamp\<close> of \<^verbatim>\<open>homeassistant.util.dt\<close>,
  which is not among the sources at hand. The specification has it convert a timestamp in
  epoch seconds to an instant in UTC, epoch 0 being 1970-01-01T00:00:00+00:00. An integer
  counts whole seconds (a bool is an integer), a float is taken as the rational it denotes
  and rounded to the nearest microsecond, and any other value is a type failure. The
  library rounds the product computed in double precision, so for a float the last
  microsecond may differ; a timestamp too large for the platform is not told apart from a
  year out of range.
\<close>

definition utc_from_timestamp :: "pyval \<Rightarrow> datetime result" where
  "utc_from_timestamp ts =
     (case ts of
        PInt n \<Rightarrow> from_microseconds (n * 1000000)
      | PBool b \<Rightarrow> from_microseconds ((if b then 1 else 0) * 1000000)
      | PFloat r \<Rightarrow> from_microseconds (round_half_even (r * 1000000))
      | _ \<Rightarrow> Inl TypeError)"

text \<open>Decimal digits, and numbers written with two, four and six of them.\<close>

definition digit :: "int \<Rightarrow> char" where
  "digit d = ''0123456789'' ! nat d"

definition pad2 :: "int \<Rightarrow> string" where
  "pad2 n = [digit (n div 10), digit (n mod 10)]"

definition pad4 :: "int \<Rightarrow> string" where
  "pad4 n = [digit (n div 1000), digit (n div 100 mod 10), digit (n div 10 mod 10), digit (n mod 10)]"

definition pad6 :: "int \<Rightarrow> string" where
  "pad6 n = pad2 (n div 10000) @ pad4 (n mod 10000)"

text \<open>
  Modelled from the spec: \<^verbatim>\<open>datetime.isoformat\<close> belongs to the language's library.
  The specification asks for the ISO-8601 form of the instant in UTC, as in
  1970-01-01T00:00:00+00:00; the microseconds are written when they are not zero.
\<close>

definition isoformat :: "datetime \<Rightarrow> string" where
  "isoformat dt =
     pad4 (year dt) @ ''-'' @ pad2 (month dt) @ ''-'' @ pad2 (day dt) @ ''T'' @
     pad2 (hour dt) @ '':'' @ pad2 (minute dt) @ '':'' @ pad2 (second dt) @
     (if microsecond dt = 0 then [] else ''.'' @ pad6 (microsecond dt)) @ ''+00:00''"

text \<open>
  Modelled from the spec: what an ISO-8601 instant in UTC with whole seconds,
  YYYY-MM-DDTHH:MM:SS+00:00, denotes: the number of seconds between 1970-01-01T00:00:00 UTC
  and that instant. The fields must be decimal digits and must name a day of the calendar
  and a time of the day.
\<close>

definition digit_value :: "char \<Rightarrow> int option" where
  "digit_value c =
     (let i = int (of_char c) in if 48 \<le> i \<and> i \<le> 57 then Some (i - 48) else None)"

fun number_from :: "int \<Rightarrow> string \<Rightarrow> int option" where
  "number_from a [] = Some a"
| "number_from a (c # cs) =
     (case digit_value c of None \<Rightarrow> None | Some v \<Rightarrow> number_from (10 * a + v) cs)"

definition number :: "string \<Rightarrow> int option" where
  "number s = number_from 0 s"

definition read_isoformat :: "string \<Rightarrow> int option" where
  "read_isoformat s =
     (if length s = 25 \<and> s ! 4 = CHR ''-'' \<and> s ! 7 = CHR ''-'' \<and> s ! 10 = CHR ''T'' \<and>
         s ! 13 = CHR '':'' \<and> s ! 16 = CHR '':'' \<and> drop 19 s = ''+00:00''
      then
        Option.bind (number (take 4 s)) (\<lambda>y.
        Option.bind (number (take 2 (drop 5 s))) (\<lambda>m.
        Option.bind (number (take 2 (drop 8 s))) (\<lambda>d.
        Option.bind (number (take 2 (drop 11 s))) (\<lambda>hh.
        Option.bind (number (take 2 (drop 14 s))) (\<lambda>mm.
        Option.bind (number (take 2 (drop 17 s))) (\<lambda>ss.
          if 1 \<le> m \<and> m \<le> 12 \<and> 1 \<le> d \<and> d \<le> days_in_month y m \<and>
             hh < 24 \<and> mm < 60 \<and> ss < 60
          then Some ((ymd2ord y m d - ymd2ord 1970 1 1) * 86400 + hh * 3600 + mm * 60 + ss)
          else None))))))
      else None)"

text \<open>What \<^const>\<open>month_day\<close> has to deliver for the day \<open>n\<close> of a year, counted from 0.\<close>

definition month_day_ok :: "bool \<Rightarrow> int \<Rightarrow> bool" where
  "month_day_ok leapyear n =
     (case month_day leapyear n of (m, d) \<Rightarrow>
        1 \<le> m \<and> m \<le> 12 \<and> 1 \<le> d \<and> d \<le> 31 \<and>
        d \<le> DAYS_IN_MONTH ! nat m + (if m = 2 \<and> leapyear then 1 else 0) \<and>
        DAYS_BEFORE_MONTH ! nat m + (if 2 < m \<and> leapyear then 1 else 0) + d = n + 1)"

section \<open>The forecast\<close>

text \<open>
  One entry of the returned list, a \<^verbatim>\<open>Forecast\<close> dict. Its keys are the constants
  \<^verbatim>\<open>ATTR_FORECAST_TIME\<close>, \<^verbatim>\<open>ATTR_FORECAST_NATIVE_TEMP\<close> and so on of the weather
  component, one field each.
\<close>

record Forecast =
  forecast_time :: string
  forecast_native_temp :: pyval
  forecast_native_temp_low :: pyval
  forecast_native_precipitation :: pyval
  forecast_precipitation_probability :: pyval
  forecast_native_wind_speed :: pyval
  forecast_wind_bearing :: pyval
  forecast_condition :: string

text \<open>
  The dict display of the comprehension: the values are evaluated in the order they are
  written, and the condition is \<^verbatim>\<open>[...][0]\<close> with nothing around it to catch the
  IndexError.
\<close>

definition forecast_item :: "const_module \<Rightarrow> pyval \<Rightarrow> Forecast result" where
  "forecast_item K item =
     and_then (subscript item ''EpochDate'') (\<lambda>ts.
     and_then (utc_from_timestamp ts) (\<lambda>dt.
     and_then (subscripts item [''TemperatureMax'', ''Value'']) (\<lambda>temp.
     and_then (subscripts item [''TemperatureMin'', ''Value'']) (\<lambda>temp_low.
     and_then (subscripts item [''TotalLiquidDay'', ''Value'']) (\<lambda>precipitation.
     and_then (subscripts item [''PrecipitationProbabilityDay'']) (\<lambda>probability.
     and_then (subscripts item [''WindDay'', ''Speed'', ''Value'']) (\<lambda>wind_speed.
     and_then (subscripts item [''WindDay'', ''Direction'', ''Degrees'']) (\<lambda>bearing.
     and_then (matching_conditions (CONDITION_CLASSES K) item ''IconDay'') (\<lambda>ks.
     and_then (first_item ks) (\<lambda>cond.
       Inr \<lparr> forecast_time = isoformat dt,
             forecast_native_temp = temp,
             forecast_native_temp_low = temp_low,
             forecast_native_precipitation = precipitation,
             forecast_precipitation_probability = probability,
             forecast_native_wind_speed = wind_speed,
             forecast_wind_bearing = bearing,
             forecast_condition = cond \<rparr>))))))))))"

text \<open>
  \<^verbatim>\<open>for item in obj\<close>: a list gives its items, a mapping its keys, a string its
  characters; a scalar is not iterable. A key that a mapping repeats counts once.
\<close>

fun dict_keys :: "(string \<times> pyval) list \<Rightarrow> string list" where
  "dict_keys [] = []"
| "dict_keys ((k, v) # rest) = k # filter (\<lambda>k'. k' \<noteq> k) (dict_keys rest)"

fun py_iter :: "pyval \<Rightarrow> pyval list result" where
  "py_iter (PList xs) = Inr xs"
| "py_iter (PDict kvs) = Inr (map PStr (dict_keys kvs))"
| "py_iter (PStr s) = Inr (map (\<lambda>c. PStr [c]) s)"
| "py_iter _ = Inl TypeError"

text \<open>A list comprehension: the body is run for each item in order, up to the first exception.\<close>

fun comprehension :: "('a \<Rightarrow> 'b result) \<Rightarrow> 'a list \<Rightarrow> 'b list result" where
  "comprehension f [] = Inr []"
| "comprehension f (x # xs) =
     and_then (f x) (\<lambda>y. and_then (comprehension f xs) (\<lambda>ys. Inr (y # ys)))"

text \<open>The property \<^verbatim>\<open>forecast\<close>.\<close>

definition forecast :: "const_module \<Rightarrow> AccuWeatherEntity \<Rightarrow> Forecast list option result" where
  "forecast K self =
     (if \<not> truthy (coordinator_forecast (coordinator self)) then Inr None
      else
        and_then (subscript (data (coordinator self)) (ATTR_FORECAST K)) (\<lambda>obj.
        and_then (py_iter obj) (\<lambda>items.
        and_then (comprehension (forecast_item K) items) (\<lambda>entries.
          Inr (Some entries)))))"

section \<open>Reading the forecast as a call on the entity\<close>








section \<open>Shape mismatches\<close>

text \<open>
  Where following a path of keys from a value goes wrong, if it does: at the first key
  that a mapping on the path does not hold (a lookup failure), or at the first value on
  the path that has to be subscripted and is not a mapping (a type failure). The value the
  path ends at is not looked at.
\<close>

fun path_failure :: "pyval \<Rightarrow> string list \<Rightarrow> py_error option" where
  "path_failure obj [] = None"
| "path_failure (PDict kvs) (k # ks) =
     (case map_of kvs k of None \<Rightarrow> Some KeyError | Some v \<Rightarrow> path_failure v ks)"
| "path_failure obj (k # ks) = Some TypeError"

text \<open>
  A day of the forecast list that has everything an entry is built from: an integer
  timestamp within the years 1 to 9999, a value at the end of each path that is copied,
  and an icon code that some entry of the condition table holds.
\<close>

definition well_formed_day :: "const_module \<Rightarrow> pyval \<Rightarrow> int \<Rightarrow> bool" where
  "well_formed_day K item t \<longleftrightarrow>
     subscript item ''EpochDate'' = Inr (PInt t) \<and>
     - 62135596800 \<le> t \<and> t \<le> 253402300799 \<and>
     path_failure item [''TemperatureMax'', ''Value''] = None \<and>
     path_failure item [''TemperatureMin'', ''Value''] = None \<and>
     path_failure item [''TotalLiquidDay'', ''Value''] = None \<and>
     path_failure item [''PrecipitationProbabilityDay''] = None \<and>
     path_failure item [''WindDay'', ''Speed'', ''Value''] = None \<and>
     path_failure item [''WindDay'', ''Direction'', ''Degrees''] = None \<and>
     (case subscript item ''IconDay'' of
        Inl e \<Rightarrow> False
      | Inr icon \<Rightarrow> list_ex (\<lambda>(k, v). py_in icon v) (CONDITION_CLASSES K))"

section \<open>Example inputs\<close>

text \<open>
  A small condition table in which the code 33 stands under two names, and an entity built
  on a coordinator with the given data and forecast attribute.
\<close>

definition example_classes :: "(string \<times> int list) list" where
  "example_classes =
     [(''clear-night'', [33, 34, 37]), (''cloudy'', [7, 8, 38]), (''sunny'', [1, 2, 5, 33])]"

definition example_consts :: const_module where
  "example_consts =
     \<lparr> API_METRIC = ''Metric'', ATTR_FORECAST = ''forecast'',
       ATTRIBUTION = ''Data provided by AccuWeather'',
       CONDITION_CLASSES = example_classes \<rparr>"

definition example_coordinator :: "string \<Rightarrow> pyval \<Rightarrow> pyval \<Rightarrow> AccuWeatherDataUpdateCoordinator" where
  "example_coordinator key d f =
     \<lparr> data = d, coordinator_forecast = f, location_key = key, device_info = PNone \<rparr>"

definition example_entity :: "pyval \<Rightarrow> pyval \<Rightarrow> AccuWeatherEntity" where
  "example_entity d f = init example_consts (example_coordinator ''2-274663_1_AL'' d f)"

text \<open>One day of a daily forecast, and the entry it is remapped to.\<close>

definition example_day :: "int \<Rightarrow> int \<Rightarrow> pyval" where
  "example_day t icon =
     PDict [(''EpochDate'', PInt t),
            (''TemperatureMax'', PDict [(''Value'', PFloat 21.5)]),
            (''TemperatureMin'', PDict [(''Value'', PFloat 10)]),
            (''TotalLiquidDay'', PDict [(''Value'', PFloat 0)]),
            (''PrecipitationProbabilityDay'', PInt 20),
            (''WindDay'', PDict [(''Speed'', PDict [(''Value'', PFloat 13)]),
                                 (''Direction'', PDict [(''Degrees'', PInt 180)])]),
            (''IconDay'', PInt icon)]"

definition example_entry :: "string \<Rightarrow> string \<Rightarrow> Forecast" where
  "example_entry time cond =
     \<lparr> forecast_time = time,
       forecast_native_temp = PFloat 21.5,
       forecast_native_temp_low = PFloat 10,
       forecast_native_precipitation = PFloat 0,
       forecast_precipitation_probability = PInt 20,
       forecast_native_wind_speed = PFloat 13,
       forecast_wind_bearing = PInt 180,
       forecast_condition = cond \<rparr>"

text \<open>Five days of forecast, the entries they are remapped to, and an entity holding a forecast list.\<close>

definition example_days :: "pyval list" where
  "example_days =
     [example_day 0 1, example_day 86400 7, example_day 172800 33, example_day 259200 38,
      example_day 345600 2]"

definition example_entries :: "Forecast list" where
  "example_entries =
     [example_entry ''1970-01-01T00:00:00+00:00'' ''sunny'',
      example_entry ''1970-01-02T00:00:00+00:00'' ''cloudy'',
      example_entry ''1970-01-03T00:00:00+00:00'' ''clear-night'',
      example_entry ''1970-01-04T00:00:00+00:00'' ''cloudy'',
      example_entry ''1970-01-05T00:00:00+00:00'' ''sunny'']"

definition example_forecast_entity :: "pyval list \<Rightarrow> pyval \<Rightarrow> AccuWeatherEntity" where
  "example_forecast_entity days f = example_entity (PDict [(''forecast'', PList days)]) f"

text \<open>The timestamps of the five example days.\<close>

definition example_timestamps :: "int list" where
  "example_timestamps = [0, 86400, 172800, 259200, 345600]"

section \<open>Basic facts\<close>

lemma and_then_Inr [simp]: "and_then (Inr x) f = f x"
  by (simp add: and_then_def)

lemma and_then_Inl [simp]: "and_then (Inl e) f = Inl e"
  by (simp add: and_then_def)

lemma and_then_eq_Inr: "and_then r f = Inr y \<longleftrightarrow> (\<exists>x. r = Inr x \<and> f x = Inr y)"
  by (cases r) auto

lemma example_entity_data [simp]: "data (coordinator (example_entity d f)) = d"
  by (simp add: example_entity_def example_coordinator_def init_def)

lemma example_entity_forecast [simp]:
  "coordinator_forecast (coordinator (example_entity d f)) = f"
  by (simp add: example_entity_def example_coordinator_def init_def)

lemma example_consts_simps [simp]:
  "API_METRIC example_consts = ''Metric''"
  "ATTR_FORECAST example_consts = ''forecast''"
  "CONDITION_CLASSES example_consts = example_classes"
  by (simp_all add: example_consts_def)

text \<open>Once the icon is read, the comprehension is a filter of the table.\<close>

lemma matching_conditions_filter:
  assumes "subscript obj key = Inr icon"
  shows "matching_conditions tbl obj key = Inr (map fst (filter (\<lambda>(k, v). py_in icon v) tbl))"
  using assms by (induction tbl) auto

lemma matching_conditions_raises:
  assumes "subscript obj key = Inl e" and "tbl \<noteq> []"
  shows "matching_conditions tbl obj key = Inl e"
  using assms by (cases tbl) auto

lemma filter_no_match:
  "list_all (\<lambda>(k, v). \<not> P v) tbl \<Longrightarrow> filter (\<lambda>(k, v). P v) tbl = []"
  by (induction tbl) auto

text \<open>
  A chain of subscripts raises where the path fails; where it does not fail, the chain
  returns the value at the end of the path, of whatever type that value is.
\<close>

lemma subscripts_failure: "path_failure obj p = Some e \<Longrightarrow> subscripts obj p = Inl e"
  by (induction obj p rule: path_failure.induct) (auto split: option.splits)

lemma subscripts_no_failure: "path_failure obj p = None \<Longrightarrow> \<exists>v. subscripts obj p = Inr v"
  by (induction obj p rule: path_failure.induct) (auto split: option.splits)

lemma path_failure_kind: "path_failure obj p = Some e \<Longrightarrow> e = KeyError \<or> e = TypeError"
  by (induction obj p rule: path_failure.induct) (auto split: option.splits)

lemma subscripts_raises_iff: "subscripts obj p = Inl e \<longleftrightarrow> path_failure obj p = Some e"
proof (cases "path_failure obj p")
  case None
  then show ?thesis
    using subscripts_no_failure [OF None] by auto
next
  case (Some e')
  then show ?thesis
    using subscripts_failure [OF Some] by auto
qed

lemma subscript_raises_iff: "subscript obj k = Inl e \<longleftrightarrow> path_failure obj [k] = Some e"
  using subscripts_raises_iff [of obj "[k]" e] by (cases "subscript obj k") auto

lemma condition_raises_iff:
  assumes "CONDITION_CLASSES K \<noteq> []"
  shows "condition K self = Inl e
         \<longleftrightarrow> path_failure (data (coordinator self)) [''WeatherIcon''] = Some e"
proof (cases "subscript (data (coordinator self)) ''WeatherIcon''")
  case (Inl e')
  then have pf: "path_failure (data (coordinator self)) [''WeatherIcon''] = Some e'"
    by (simp add: subscript_raises_iff)
  have "matching_conditions (CONDITION_CLASSES K) (data (coordinator self)) ''WeatherIcon'' = Inl e'"
    using Inl assms by (rule matching_conditions_raises)
  then have "condition K self = Inl e'"
    using path_failure_kind [OF pf] by (auto simp add: condition_def)
  then show ?thesis
    using pf by auto
next
  case (Inr icon)
  then have pf: "path_failure (data (coordinator self)) [''WeatherIcon''] \<noteq> Some e"
    using subscript_raises_iff [of "data (coordinator self)" "''WeatherIcon''" e] by simp
  have "\<exists>r. condition K self = Inr r"
    by (cases "map fst (filter (\<lambda>(k, v). py_in icon v) (CONDITION_CLASSES K))")
       (simp_all add: condition_def matching_conditions_filter [OF Inr] first_item_def)
  then show ?thesis
    using pf by auto
qed

text \<open>A comprehension returns a list exactly when its body returns on every item.\<close>

lemma comprehension_Inr_D:
  "comprehension f xs = Inr ys \<Longrightarrow> list_all2 (\<lambda>x y. f x = Inr y) xs ys"
  by (induction xs arbitrary: ys) (auto simp add: and_then_def split: sum.splits)

lemma comprehension_Inr_I:
  "list_all2 (\<lambda>x y. f x = Inr y) xs ys \<Longrightarrow> comprehension f xs = Inr ys"
  by (induction rule: list_all2_induct) auto

lemma comprehension_Inr_iff:
  "comprehension f xs = Inr ys \<longleftrightarrow> list_all2 (\<lambda>x y. f x = Inr y) xs ys"
  using comprehension_Inr_D comprehension_Inr_I by blast

lemma forecast_truthy:
  assumes "truthy (coordinator_forecast (coordinator self))"
  shows "forecast K self =
           and_then (and_then (subscript (data (coordinator self)) (ATTR_FORECAST K)) py_iter)
             (\<lambda>items. and_then (comprehension (forecast_item K) items) (\<lambda>entries. Inr (Some entries)))"
  using assms by (simp add: forecast_def and_then_def split: sum.splits)

lemma forecast_Some_iff:
  assumes "truthy (coordinator_forecast (coordinator self))"
    and "and_then (subscript (data (coordinator self)) (ATTR_FORECAST K)) py_iter = Inr items"
  shows "forecast K self = Inr (Some entries)
         \<longleftrightarrow> list_all2 (\<lambda>item entry. forecast_item K item = Inr entry) items entries"
proof -
  have "forecast K self = and_then (comprehension (forecast_item K) items) (\<lambda>entries. Inr (Some entries))"
    using assms by (simp add: forecast_truthy)
  then show ?thesis
    by (cases "comprehension (forecast_item K) items") (auto simp add: comprehension_Inr_iff [symmetric])
qed


lemma example_forecast_entity_simps [simp]:
  "coordinator_forecast (coordinator (example_forecast_entity days f)) = f"
  "subscript (data (coordinator (example_forecast_entity days f))) ''forecast'' = Inr (PList days)"
  by (simp_all add: example_forecast_entity_def)

lemma forecast_Some_nth:
  assumes "truthy (coordinator_forecast (coordinator self))"
    and "subscript (data (coordinator self)) (ATTR_FORECAST K) = Inr (PList items)"
    and "forecast K self = Inr (Some entries)"
    and "i < length items"
  shows "forecast_item K (items ! i) = Inr (entries ! i)"
proof -
  have "and_then (subscript (data (coordinator self)) (ATTR_FORECAST K)) py_iter = Inr items"
    using assms(2) by simp
  from forecast_Some_iff [OF assms(1) this, of entries] assms(3,4) show ?thesis
    by (simp add: list_all2_conv_all_nth)
qed

lemma forecast_not_None:
  assumes "truthy (coordinator_forecast (coordinator self))"
  shows "forecast K self \<noteq> Inr None"
  using assms by (auto simp add: forecast_def and_then_def split: sum.splits)

text \<open>An icon code that no table entry holds leaves \<^verbatim>\<open>[...][0]\<close> with an empty list.\<close>

lemma forecast_item_miss:
  assumes "subscript item ''IconDay'' = Inr icon"
    and "list_all (\<lambda>(k, v). \<not> py_in icon v) (CONDITION_CLASSES K)"
  shows "\<exists>e. forecast_item K item = Inl e"
proof (cases "forecast_item K item")
  case (Inl e)
  then show ?thesis by blast
next
  case (Inr entry)
  have "matching_conditions (CONDITION_CLASSES K) item ''IconDay'' = Inr []"
    using assms by (simp add: matching_conditions_filter filter_no_match)
  then have False
    using Inr by (auto simp add: forecast_item_def and_then_eq_Inr first_item_def)
  then show ?thesis ..
qed

section \<open>Calendar arithmetic\<close>

text \<open>The month and the day are right for each of the 365 first days of a year, leap or not.\<close>

lemma month_day_ok_all: "list_all (\<lambda>n. month_day_ok True n \<and> month_day_ok False n) [0..364]"
  by code_simp

lemma month_day_correct:
  assumes "0 \<le> n" and "n \<le> 364"
  shows "month_day_ok L n"
proof -
  have "n \<in> set [0..364]"
    using assms by simp
  then have "month_day_ok True n \<and> month_day_ok False n"
    using month_day_ok_all unfolding list_all_iff by blast
  then show ?thesis
    by (cases L) simp_all
qed

text \<open>Years written as cycles of 400, 100, 4 and 1: their quotients and remainders.\<close>

lemma div_facts:
  fixes a b c e :: int
  assumes "0 \<le> b" "b \<le> 3" "0 \<le> c" "c \<le> 24" "0 \<le> e" "e \<le> 3"
  shows "(400 * a + 100 * b + 4 * c + e) div 4 = 100 * a + 25 * b + c"
    and "(400 * a + 100 * b + 4 * c + e) div 100 = 4 * a + b"
    and "(400 * a + 100 * b + 4 * c + e) div 400 = a"
proof -
  show "(400 * a + 100 * b + 4 * c + e) div 4 = 100 * a + 25 * b + c"
    by (rule int_div_pos_eq [where r = e]) (use assms in simp_all)
  show "(400 * a + 100 * b + 4 * c + e) div 100 = 4 * a + b"
    by (rule int_div_pos_eq [where r = "4 * c + e"]) (use assms in simp_all)
  show "(400 * a + 100 * b + 4 * c + e) div 400 = a"
    by (rule int_div_pos_eq [where r = "100 * b + 4 * c + e"]) (use assms in simp_all)
qed

lemma mod_zero_iff:
  fixes k q s :: int
  assumes "1 \<le> s" "s \<le> k"
  shows "(k * q + s) mod k = 0 \<longleftrightarrow> s = k"
proof (cases "s = k")
  case True
  then show ?thesis by simp
next
  case False
  then have "(k * q + s) mod k = s"
    using assms by (intro int_mod_pos_eq [where q = q]) simp_all
  then show ?thesis using assms False by simp
qed

lemma mod_facts:
  fixes a b c e :: int
  assumes "0 \<le> b" "b \<le> 3" "0 \<le> c" "c \<le> 24" "0 \<le> e" "e \<le> 3"
  shows "(400 * a + 100 * b + 4 * c + e + 1) mod 4 = 0 \<longleftrightarrow> e = 3"
    and "(400 * a + 100 * b + 4 * c + e + 1) mod 100 = 0 \<longleftrightarrow> e = 3 \<and> c = 24"
    and "(400 * a + 100 * b + 4 * c + e + 1) mod 400 = 0 \<longleftrightarrow> e = 3 \<and> c = 24 \<and> b = 3"
proof -
  have e4: "400 * a + 100 * b + 4 * c + e + 1 = 4 * (100 * a + 25 * b + c) + (e + 1)"
    by simp
  have m4: "(4 * (100 * a + 25 * b + c) + (e + 1)) mod 4 = 0 \<longleftrightarrow> e + 1 = 4"
    by (rule mod_zero_iff) (use assms in simp_all)
  show "(400 * a + 100 * b + 4 * c + e + 1) mod 4 = 0 \<longleftrightarrow> e = 3"
    unfolding e4 m4 by arith
  have e100: "400 * a + 100 * b + 4 * c + e + 1 = 100 * (4 * a + b) + (4 * c + e + 1)"
    by simp
  have m100: "(100 * (4 * a + b) + (4 * c + e + 1)) mod 100 = 0 \<longleftrightarrow> 4 * c + e + 1 = 100"
    by (rule mod_zero_iff) (use assms in simp_all)
  show "(400 * a + 100 * b + 4 * c + e + 1) mod 100 = 0 \<longleftrightarrow> e = 3 \<and> c = 24"
    unfolding e100 m100 using assms by arith
  have e400: "400 * a + 100 * b + 4 * c + e + 1 = 400 * a + (100 * b + 4 * c + e + 1)"
    by simp
  have m400: "(400 * a + (100 * b + 4 * c + e + 1)) mod 400 = 0 \<longleftrightarrow> 100 * b + 4 * c + e + 1 = 400"
    by (rule mod_zero_iff) (use assms in simp_all)
  show "(400 * a + 100 * b + 4 * c + e + 1) mod 400 = 0 \<longleftrightarrow> e = 3 \<and> c = 24 \<and> b = 3"
    unfolding e400 m400 using assms by arith
qed

lemma days_before_year_decomp:
  assumes "0 \<le> b" "b \<le> 3" "0 \<le> c" "c \<le> 24" "0 \<le> e" "e \<le> 3"
  shows "days_before_year (400 * a + 100 * b + 4 * c + e + 1)
           = 146097 * a + 36524 * b + 1461 * c + 365 * e"
  using div_facts [OF assms, of a] by (simp add: days_before_year_def)

lemma is_leap_decomp:
  assumes "0 \<le> b" "b \<le> 3" "0 \<le> c" "c \<le> 24" "0 \<le> e" "e \<le> 3"
  shows "is_leap (400 * a + 100 * b + 4 * c + e + 1) \<longleftrightarrow> e = 3 \<and> (c \<noteq> 24 \<or> b = 3)"
  using mod_facts [OF assms, of a] by (auto simp add: is_leap_def)

text \<open>Digits are read back as they were written.\<close>

lemma digit_value_digit_all: "list_all (\<lambda>d. digit_value (digit d) = Some d) [0..9]"
  by code_simp

lemma digit_value_digit:
  assumes "0 \<le> d" and "d \<le> 9"
  shows "digit_value (digit d) = Some d"
proof -
  have "d \<in> set [0..9]"
    using assms by simp
  then show ?thesis
    using digit_value_digit_all unfolding list_all_iff by blast
qed

lemma number_two_digits:
  assumes "0 \<le> n" and "n < 100"
  shows "number [digit (n div 10), digit (n mod 10)] = Some n"
proof -
  define a where "a = n div 10"
  define b where "b = n mod 10"
  have n: "10 * a + b = n"
    by (simp add: a_def b_def)
  have "a \<le> 9"
    unfolding a_def using zdiv_mono1 [of n 99 10] assms by simp
  moreover have "0 \<le> a"
    unfolding a_def using assms by (simp add: pos_imp_zdiv_nonneg_iff)
  ultimately have da: "digit_value (digit a) = Some a"
    by (intro digit_value_digit)
  have "0 \<le> b" "b < 10"
    by (simp_all add: b_def)
  then have db: "digit_value (digit b) = Some b"
    by (intro digit_value_digit) simp_all
  have "number [digit a, digit b] = Some n"
    using da db n by (simp add: number_def)
  then show ?thesis
    by (simp only: a_def b_def)
qed

lemma number_four_digits:
  assumes "0 \<le> n" and "n < 10000"
  shows "number [digit (n div 1000), digit (n div 100 mod 10), digit (n div 10 mod 10), digit (n mod 10)]
           = Some n"
proof -
  define q1 where "q1 = n div 10"
  define q2 where "q2 = q1 div 10"
  define a where "a = q2 div 10"
  define b where "b = q2 mod 10"
  define c where "c = q1 mod 10"
  define d where "d = n mod 10"
  have e: "n div 100 = q2" "n div 1000 = a"
    by (simp_all add: q1_def q2_def a_def zdiv_zmult2_eq)
  have s: "10 * q1 + d = n" "10 * q2 + c = q1" "10 * a + b = q2"
    by (simp_all add: q1_def q2_def a_def b_def c_def d_def)
  have "a \<le> 9"
    unfolding e(2) [symmetric] using zdiv_mono1 [of n 9999 1000] assms by simp
  moreover have "0 \<le> a"
    unfolding e(2) [symmetric] using assms by (simp add: pos_imp_zdiv_nonneg_iff)
  ultimately have da: "digit_value (digit a) = Some a"
    by (intro digit_value_digit)
  have "0 \<le> b" "b < 10" "0 \<le> c" "c < 10" "0 \<le> d" "d < 10"
    by (simp_all add: b_def c_def d_def)
  then have db: "digit_value (digit b) = Some b"
    and dc: "digit_value (digit c) = Some c"
    and dd: "digit_value (digit d) = Some d"
    by (simp_all add: digit_value_digit)
  have "10 * (10 * (10 * a + b) + c) + d = n"
    by (simp only: s)
  then have "number [digit a, digit b, digit c, digit d] = Some n"
    using da db dc dd by (simp add: number_def)
  then show ?thesis
    by (simp only: e [symmetric] a_def b_def c_def d_def q1_def [symmetric])
qed

text \<open>
  The date computed for a day number is a date of the calendar, and its day number is the
  one given; day numbers 1 to 3652059 are the years 1 to 9999.
\<close>

lemma ord2ymd_correct:
  assumes "ord2ymd n = (y, m, d)"
  shows "1 \<le> m \<and> m \<le> 12 \<and> 1 \<le> d \<and> d \<le> 31 \<and> d \<le> days_in_month y m \<and>
         ymd2ord y m d = n \<and> (1 \<le> n \<and> n \<le> 3652059 \<longrightarrow> 1 \<le> y \<and> y \<le> 9999)"
proof -
  define a where "a = (n - 1) div 146097"
  define r400 where "r400 = (n - 1) mod 146097"
  define b where "b = r400 div 36524"
  define r100 where "r100 = r400 mod 36524"
  define c where "c = r100 div 1461"
  define r4 where "r4 = r100 mod 1461"
  define e where "e = r4 div 365"
  define r where "r = r4 mod 365"
  have d1: "n - 1 = 146097 * a + r400" "0 \<le> r400" "r400 < 146097"
    by (simp_all add: a_def r400_def)
  have d2: "r400 = 36524 * b + r100" "0 \<le> r100" "r100 < 36524"
    by (simp_all add: b_def r100_def)
  have d3: "r100 = 1461 * c + r4" "0 \<le> r4" "r4 < 1461"
    by (simp_all add: c_def r4_def)
  have d4: "r4 = 365 * e + r" "0 \<le> r" "r < 365"
    by (simp_all add: e_def r_def)
  have rb: "0 \<le> b" "b \<le> 4"
    using d1 d2 by arith+
  have rc: "0 \<le> c" "c \<le> 24"
    using d2 d3 by arith+
  have re: "0 \<le> e" "e \<le> 4"
    using d3 d4 by arith+
  have unf: "ord2ymd n =
      (if e = 4 \<or> b = 4 then (a * 400 + 1 + b * 100 + c * 4 + e - 1, 12, 31)
       else (a * 400 + 1 + b * 100 + c * 4 + e, month_day (e = 3 \<and> (c \<noteq> 24 \<or> b = 3)) r))"
    unfolding ord2ymd_def Let_def a_def r400_def b_def r100_def c_def r4_def e_def r_def
    by (rule refl)
  have ra: "0 \<le> a \<and> a \<le> 24" if "1 \<le> n \<and> n \<le> 3652059"
    using that d1 by arith
  have tables: "DAYS_BEFORE_MONTH ! nat 12 = 334" "DAYS_IN_MONTH ! nat 12 = 31"
    by (simp_all add: DAYS_BEFORE_MONTH_def DAYS_IN_MONTH_def)
  show ?thesis
  proof (cases "b = 4")
    case True
    then have z: "r100 = 0" "c = 0" "r4 = 0" "e = 0" "r = 0"
      using d1 d2 d3 d4 rc re by arith+
    have ymd: "y = 400 * a + 100 * 3 + 4 * 24 + 3 + 1" "m = 12" "d = 31"
      using assms unf True z by simp_all
    have "days_before_year y = 146097 * a + 36524 * 3 + 1461 * 24 + 365 * 3"
      unfolding ymd by (rule days_before_year_decomp) simp_all
    moreover have "is_leap y"
      unfolding ymd by (subst is_leap_decomp) simp_all
    moreover have "1 \<le> y \<and> y \<le> 9999" if "1 \<le> n \<and> n \<le> 3652059"
      using ra [OF that] that d1 d2 True unfolding ymd by arith
    ultimately show ?thesis
      using ymd d1 d2 True z tables
      by (simp add: ymd2ord_def days_before_month_def days_in_month_def)
  next
    case b3: False
    then have b3': "b \<le> 3" using rb by simp
    show ?thesis
    proof (cases "e = 4")
      case True
      then have z: "r = 0" "c \<le> 23"
        using d2 d3 d4 by arith+
      have ymd: "y = 400 * a + 100 * b + 4 * c + 3 + 1" "m = 12" "d = 31"
        using assms unf True by simp_all
      have "days_before_year y = 146097 * a + 36524 * b + 1461 * c + 365 * 3"
        unfolding ymd by (rule days_before_year_decomp) (use rb rc b3' in simp_all)
      moreover have "is_leap y"
        unfolding ymd by (subst is_leap_decomp) (use rb rc b3' z in simp_all)
      moreover have "1 \<le> y \<and> y \<le> 9999" if "1 \<le> n \<and> n \<le> 3652059"
        using ra [OF that] rb rc b3' z unfolding ymd by arith
      ultimately show ?thesis
        using ymd d1 d2 d3 d4 True z tables
        by (simp add: ymd2ord_def days_before_month_def days_in_month_def)
    next
      case False
      then have e3: "e \<le> 3" using re by simp
      let ?L = "e = 3 \<and> (c \<noteq> 24 \<or> b = 3)"
      have y: "y = 400 * a + 100 * b + 4 * c + e + 1" and md: "month_day ?L r = (m, d)"
        using assms unf False b3 by simp_all
      have dby: "days_before_year y = 146097 * a + 36524 * b + 1461 * c + 365 * e"
        unfolding y by (rule days_before_year_decomp) (use rb rc re b3' e3 in simp_all)
      have leap: "is_leap y \<longleftrightarrow> ?L"
        unfolding y by (rule is_leap_decomp) (use rb rc re b3' e3 in simp_all)
      have "month_day_ok ?L r"
        by (rule month_day_correct) (use d4 in simp_all)
      then have mdc: "1 \<le> m \<and> m \<le> 12 \<and> 1 \<le> d \<and> d \<le> 31 \<and>
         d \<le> DAYS_IN_MONTH ! nat m + (if m = 2 \<and> ?L then 1 else 0) \<and>
         DAYS_BEFORE_MONTH ! nat m + (if 2 < m \<and> ?L then 1 else 0) + d = r + 1"
        unfolding month_day_ok_def md by simp
      have feb: "DAYS_IN_MONTH ! nat 2 = 28"
        by (simp add: DAYS_IN_MONTH_def)
      have dim: "days_in_month y m = DAYS_IN_MONTH ! nat m + (if m = 2 \<and> ?L then 1 else 0)"
        using feb by (auto simp add: days_in_month_def leap)
      have dbm: "days_before_month y m = DAYS_BEFORE_MONTH ! nat m + (if 2 < m \<and> ?L then 1 else 0)"
        by (simp add: days_before_month_def leap)
      have "ymd2ord y m d = n"
        using mdc d1 d2 d3 d4 unfolding ymd2ord_def dby dbm by linarith
      moreover have "1 \<le> y \<and> y \<le> 9999" if "1 \<le> n \<and> n \<le> 3652059"
        using ra [OF that] that rb rc re b3' e3 d1 d2 d3 d4 unfolding y by arith
      ultimately show ?thesis
        using mdc dim by simp
    qed
  qed
qed

text \<open>Hours, minutes and seconds of a second of the day.\<close>

lemma time_of_day:
  fixes sod :: int
  assumes "0 \<le> sod" and "sod < 86400"
  shows "0 \<le> sod div 3600" "sod div 3600 < 24"
    and "0 \<le> sod mod 3600 div 60" "sod mod 3600 div 60 < 60"
    and "0 \<le> sod mod 60" "sod mod 60 < 60"
    and "sod div 3600 * 3600 + sod mod 3600 div 60 * 60 + sod mod 60 = sod"
proof -
  show "0 \<le> sod div 3600" "sod div 3600 < 24"
    using assms by arith+
  show "0 \<le> sod mod 3600 div 60" "sod mod 3600 div 60 < 60"
    by (simp_all add: pos_imp_zdiv_nonneg_iff div_less_iff_less_mult)
  show "0 \<le> sod mod 60" "sod mod 60 < 60"
    by simp_all
  have c: "sod mod 3600 mod 60 = sod mod 60"
    by (rule mod_mod_cancel) simp
  have a: "sod div 3600 * 3600 + sod mod 3600 = sod"
    by (rule div_mult_mod_eq)
  have b: "sod mod 3600 div 60 * 60 + sod mod 3600 mod 60 = sod mod 3600"
    by (rule div_mult_mod_eq)
  show "sod div 3600 * 3600 + sod mod 3600 div 60 * 60 + sod mod 60 = sod"
    using a b c by linarith
qed

text \<open>The ISO form of an instant with whole seconds, and reading it back.\<close>

lemma isoformat_whole_seconds:
  assumes "microsecond dt = 0"
  shows "isoformat dt =
    [digit (year dt div 1000), digit (year dt div 100 mod 10), digit (year dt div 10 mod 10),
     digit (year dt mod 10), CHR ''-'', digit (month dt div 10), digit (month dt mod 10),
     CHR ''-'', digit (day dt div 10), digit (day dt mod 10), CHR ''T'',
     digit (hour dt div 10), digit (hour dt mod 10), CHR '':'',
     digit (minute dt div 10), digit (minute dt mod 10), CHR '':'',
     digit (second dt div 10), digit (second dt mod 10),
     CHR ''+'', CHR ''0'', CHR ''0'', CHR '':'', CHR ''0'', CHR ''0'']"
  using assms by (simp add: isoformat_def pad2_def pad4_def)

lemma read_isoformat_isoformat:
  assumes "0 \<le> year dt" "year dt < 10000"
    and "1 \<le> month dt" "month dt \<le> 12"
    and "1 \<le> day dt" "day dt \<le> 31" "day dt \<le> days_in_month (year dt) (month dt)"
    and "0 \<le> hour dt" "hour dt < 24"
    and "0 \<le> minute dt" "minute dt < 60"
    and "0 \<le> second dt" "second dt < 60"
    and "microsecond dt = 0"
  shows "read_isoformat (isoformat dt) =
           Some ((ymd2ord (year dt) (month dt) (day dt) - ymd2ord 1970 1 1) * 86400
                 + hour dt * 3600 + minute dt * 60 + second dt)"
proof -
  have y: "number [digit (year dt div 1000), digit (year dt div 100 mod 10),
                   digit (year dt div 10 mod 10), digit (year dt mod 10)] = Some (year dt)"
    by (rule number_four_digits) (use assms in simp_all)
  have m: "number [digit (month dt div 10), digit (month dt mod 10)] = Some (month dt)"
    by (rule number_two_digits) (use assms in simp_all)
  have d: "number [digit (day dt div 10), digit (day dt mod 10)] = Some (day dt)"
    by (rule number_two_digits) (use assms in simp_all)
  have hh: "number [digit (hour dt div 10), digit (hour dt mod 10)] = Some (hour dt)"
    by (rule number_two_digits) (use assms in simp_all)
  have mm: "number [digit (minute dt div 10), digit (minute dt mod 10)] = Some (minute dt)"
    by (rule number_two_digits) (use assms in simp_all)
  have ss: "number [digit (second dt div 10), digit (second dt mod 10)] = Some (second dt)"
    by (rule number_two_digits) (use assms in simp_all)
  show ?thesis
    unfolding isoformat_whole_seconds [OF assms(14)] read_isoformat_def
    using assms by (simp add: y m d hh mm ss)
qed

lemma epoch_ordinal: "ymd2ord 1970 1 1 = 719163"
  by code_simp

lemma from_microseconds_unfold:
  "from_microseconds (t * 1000000) =
     (case ord2ymd (t div 86400 + 719163) of (y, m, d) \<Rightarrow>
        if y < 1 \<or> 9999 < y then Inl ValueError
        else Inr \<lparr> year = y, month = m, day = d,
                    hour = t mod 86400 div 3600, minute = t mod 86400 mod 3600 div 60,
                    second = t mod 86400 mod 60, microsecond = 0 \<rparr>)"
proof -
  have a: "t * 1000000 div 1000000 = t" "t * 1000000 mod 1000000 = 0"
    by simp_all
  show ?thesis
    unfolding from_microseconds_def Let_def a by (rule refl)
qed

lemma from_microseconds_in_range:
  assumes "ord2ymd (t div 86400 + 719163) = (y, m, d)" "1 \<le> y" "y \<le> 9999"
  shows "from_microseconds (t * 1000000) = Inr \<lparr> year = y, month = m, day = d,
                    hour = t mod 86400 div 3600, minute = t mod 86400 mod 3600 div 60,
                    second = t mod 86400 mod 60, microsecond = 0 \<rparr>"
  unfolding from_microseconds_unfold assms(1) using assms(2,3) by simp

lemma from_microseconds_whole_seconds:
  assumes "- 62135596800 \<le> t" and "t \<le> 253402300799"
  shows "\<exists>dt. from_microseconds (t * 1000000) = Inr dt \<and> read_isoformat (isoformat dt) = Some t"
proof -
  define days where "days = t div 86400"
  define sod where "sod = t mod 86400"
  have ts: "days * 86400 + sod = t" "0 \<le> sod" "sod < 86400"
    by (simp_all add: days_def sod_def)
  have ord: "1 \<le> days + 719163 \<and> days + 719163 \<le> 3652059"
    using assms ts by arith
  obtain y m d where ymd: "ord2ymd (days + 719163) = (y, m, d)"
    by (metis prod_cases3)
  note c = ord2ymd_correct [OF ymd]
  have yr: "1 \<le> y" "y \<le> 9999"
    using c ord by simp_all
  define hh where "hh = sod div 3600"
  define mm where "mm = sod mod 3600 div 60"
  define ss where "ss = sod mod 60"
  define dt where "dt = \<lparr> year = y, month = m, day = d,
      hour = hh, minute = mm, second = ss, microsecond = 0 \<rparr>"
  have fm: "from_microseconds (t * 1000000) = Inr dt"
    unfolding dt_def hh_def mm_def ss_def sod_def
    by (rule from_microseconds_in_range) (use ymd yr in \<open>simp_all add: days_def\<close>)
  note tod = time_of_day [OF ts(2,3), folded hh_def mm_def ss_def]
  have "read_isoformat (isoformat dt) =
          Some ((ymd2ord (year dt) (month dt) (day dt) - ymd2ord 1970 1 1) * 86400
                + hour dt * 3600 + minute dt * 60 + second dt)"
    by (rule read_isoformat_isoformat) (use c yr tod in \<open>simp_all add: dt_def\<close>)
  also have "\<dots> = Some (days * 86400 + (hh * 3600 + mm * 60 + ss))"
    using c by (simp add: dt_def epoch_ordinal)
  also have "\<dots> = Some t"
    using tod(7) ts(1) by simp
  finally show ?thesis
    using fm by blast
qed

section \<open>Entries built from well-formed days\<close>

text \<open>
  A well-formed day is remapped to an entry, and the time of the entry is the ISO form of
  the converted timestamp, which denotes the instant of the timestamp.
\<close>

lemma first_item_filter_match:
  assumes "list_ex (\<lambda>(k, v). P v) tbl"
  shows "\<exists>k. first_item (map fst (filter (\<lambda>(k, v). P v) tbl)) = Inr k"
  using assms by (induction tbl) (auto simp add: first_item_def)

lemma forecast_item_well_formed:
  assumes "well_formed_day K item t"
  shows "\<exists>dt entry. utc_from_timestamp (PInt t) = Inr dt \<and>
           read_isoformat (isoformat dt) = Some t \<and>
           forecast_item K item = Inr entry \<and> forecast_time entry = isoformat dt"
proof -
  have ts: "subscript item ''EpochDate'' = Inr (PInt t)"
    using assms by (simp add: well_formed_day_def)
  obtain dt where dt: "utc_from_timestamp (PInt t) = Inr dt"
    and rd: "read_isoformat (isoformat dt) = Some t"
    using assms from_microseconds_whole_seconds [of t]
    by (auto simp add: well_formed_day_def utc_from_timestamp_def)
  obtain temp where temp: "subscripts item [''TemperatureMax'', ''Value''] = Inr temp"
    using assms subscripts_no_failure unfolding well_formed_day_def by blast
  obtain temp_low where temp_low: "subscripts item [''TemperatureMin'', ''Value''] = Inr temp_low"
    using assms subscripts_no_failure unfolding well_formed_day_def by blast
  obtain precipitation where
    precipitation: "subscripts item [''TotalLiquidDay'', ''Value''] = Inr precipitation"
    using assms subscripts_no_failure unfolding well_formed_day_def by blast
  obtain probability where
    probability: "subscripts item [''PrecipitationProbabilityDay''] = Inr probability"
    using assms subscripts_no_failure unfolding well_formed_day_def by blast
  obtain wind_speed where
    wind_speed: "subscripts item [''WindDay'', ''Speed'', ''Value''] = Inr wind_speed"
    using assms subscripts_no_failure unfolding well_formed_day_def by blast
  obtain bearing where
    bearing: "subscripts item [''WindDay'', ''Direction'', ''Degrees''] = Inr bearing"
    using assms subscripts_no_failure unfolding well_formed_day_def by blast
  obtain icon where icon: "subscript item ''IconDay'' = Inr icon"
    and hit: "list_ex (\<lambda>(k, v). py_in icon v) (CONDITION_CLASSES K)"
    using assms by (auto simp add: well_formed_day_def split: sum.splits)
  obtain cond where cond:
    "first_item (map fst (filter (\<lambda>(k, v). py_in icon v) (CONDITION_CLASSES K))) = Inr cond"
    using first_item_filter_match [OF hit] by blast
  have "forecast_item K item =
          Inr \<lparr> forecast_time = isoformat dt,
                forecast_native_temp = temp,
                forecast_native_temp_low = temp_low,
                forecast_native_precipitation = precipitation,
                forecast_precipitation_probability = probability,
                forecast_native_wind_speed = wind_speed,
                forecast_wind_bearing = bearing,
                forecast_condition = cond \<rparr>"
    unfolding forecast_item_def
    by (simp only: ts dt temp temp_low precipitation probability wind_speed bearing
        matching_conditions_filter [OF icon] cond and_then_Inr)
  then show ?thesis
    using dt rd by simp
qed

lemma comprehension_well_formed:
  assumes "list_all2 (well_formed_day K) items ts"
  shows "\<exists>entries. comprehension (forecast_item K) items = Inr entries \<and>
           list_all2 (\<lambda>entry t. \<exists>dt. utc_from_timestamp (PInt t) = Inr dt \<and>
                        forecast_time entry = isoformat dt \<and>
                        read_isoformat (isoformat dt) = Some t) entries ts"
  using assms
proof (induction rule: list_all2_induct)
  case Nil
  then show ?case by simp
next
  case (Cons item items t ts)
  obtain dt entry where "utc_from_timestamp (PInt t) = Inr dt"
    "read_isoformat (isoformat dt) = Some t"
    "forecast_item K item = Inr entry" "forecast_time entry = isoformat dt"
    using forecast_item_well_formed [OF Cons.hyps(1)] by blast
  moreover obtain entries where "comprehension (forecast_item K) items = Inr entries"
    "list_all2 (\<lambda>entry t. \<exists>dt. utc_from_timestamp (PInt t) = Inr dt \<and>
                        forecast_time entry = isoformat dt \<and>
                        read_isoformat (isoformat dt) = Some t) entries ts"
    using Cons.IH by blast
  ultimately show ?case
    by (intro exI [of _ "entry # entries"]) auto
qed

lemma utc_from_timestamp_epoch:
  "map_sum id isoformat (utc_from_timestamp (PInt 0)) = Inr ''1970-01-01T00:00:00+00:00''"
  by code_simp

section \<open>The steps of the forecast leave the entity as it is\<close>






section \<open>The current condition\<close>

text \<open>
  C3. When the snapshot holds an icon code, \<^verbatim>\<open>condition\<close> returns the name of the
  first table entry, in the table's order, whose codes contain it: entries before it that
  do not contain the code are passed over and entries after it are not consulted, so a
  code listed under two names resolves to the earlier one. When no entry contains the
  code, \<^verbatim>\<open>condition\<close> returns None; it does not raise.
\<close>

theorem condition_first_match:
  assumes "subscript (data (coordinator self)) ''WeatherIcon'' = Inr icon"
  shows "(CONDITION_CLASSES K = pre @ (k, v) # post \<and> py_in icon v \<and>
            list_all (\<lambda>(k', v'). \<not> py_in icon v') pre
          \<longrightarrow> condition K self = Inr (Some k)) \<and>
         (list_all (\<lambda>(k', v'). \<not> py_in icon v') (CONDITION_CLASSES K)
          \<longrightarrow> condition K self = Inr None)"
proof (intro conjI impI)
  assume h: "CONDITION_CLASSES K = pre @ (k, v) # post \<and> py_in icon v \<and>
             list_all (\<lambda>(k', v'). \<not> py_in icon v') pre"
  then have "filter (\<lambda>(k, v). py_in icon v) (CONDITION_CLASSES K)
             = (k, v) # filter (\<lambda>(k, v). py_in icon v) post"
    by (simp add: filter_no_match)
  then show "condition K self = Inr (Some k)"
    by (simp add: condition_def matching_conditions_filter [OF assms] first_item_def)
next
  assume "list_all (\<lambda>(k', v'). \<not> py_in icon v') (CONDITION_CLASSES K)"
  then have "filter (\<lambda>(k, v). py_in icon v) (CONDITION_CLASSES K) = []"
    by (rule filter_no_match)
  then show "condition K self = Inr None"
    by (simp add: condition_def matching_conditions_filter [OF assms] first_item_def)
qed

text \<open>
  In the example table the code 33 stands under clear-night and under sunny: the earlier
  name is returned. The code 99 stands nowhere.
\<close>

theorem condition_first_match_witness:
  "condition example_consts (example_entity (PDict [(''WeatherIcon'', PInt 33)]) PNone)
     = Inr (Some ''clear-night'') \<and>
   condition example_consts (example_entity (PDict [(''WeatherIcon'', PInt 99)]) PNone)
     = Inr None"
proof
  have s: "subscript (data (coordinator (example_entity (PDict [(''WeatherIcon'', PInt 33)]) PNone)))
             ''WeatherIcon'' = Inr (PInt 33)"
    by simp
  show "condition example_consts (example_entity (PDict [(''WeatherIcon'', PInt 33)]) PNone)
          = Inr (Some ''clear-night'')"
    using condition_first_match [OF s, of example_consts "[]" "''clear-night''" "[33, 34, 37]"
        "[(''cloudy'', [7, 8, 38]), (''sunny'', [1, 2, 5, 33])]"]
    by (simp add: example_classes_def py_in_def)
next
  have s: "subscript (data (coordinator (example_entity (PDict [(''WeatherIcon'', PInt 99)]) PNone)))
             ''WeatherIcon'' = Inr (PInt 99)"
    by simp
  show "condition example_consts (example_entity (PDict [(''WeatherIcon'', PInt 99)]) PNone)
          = Inr None"
    using condition_first_match [OF s, of example_consts]
    by (simp add: example_classes_def py_in_def)
qed

section \<open>The scalar readings\<close>

text \<open>
  C7. \<^verbatim>\<open>native_temperature\<close> returns the value stored under Temperature, then the
  metric selector, then Value, exactly as it is stored: nothing is converted and nothing
  is checked.
\<close>

theorem native_temperature_reads_path:
  assumes "data (coordinator self) = PDict kvs"
    and "map_of kvs ''Temperature'' = Some (PDict t)"
    and "map_of t (API_METRIC K) = Some (PDict u)"
    and "map_of u ''Value'' = Some x"
  shows "native_temperature K self = Inr x"
  using assms by (simp add: native_temperature_def)

text \<open>The snapshot of the specification, with the float 21.5.\<close>

theorem native_temperature_reads_path_witness:
  "native_temperature example_consts
     (example_entity
        (PDict [(''Temperature'', PDict [(''Metric'', PDict [(''Value'', PFloat 21.5)])])]) PNone)
   = Inr (PFloat 21.5)"
  by (rule native_temperature_reads_path
        [where kvs = "[(''Temperature'', PDict [(''Metric'', PDict [(''Value'', PFloat 21.5)])])]"
           and t = "[(''Metric'', PDict [(''Value'', PFloat 21.5)])]"
           and u = "[(''Value'', PFloat 21.5)]"]) simp_all

text \<open>
  C5, as the code has it. Each reading raises exactly when following its path through the
  snapshot fails, by a missing key (KeyError) or by a value on the way that has to be
  subscripted and is not a mapping (TypeError), and it raises that very failure:
  \<^verbatim>\<open>native_temperature\<close>, \<^verbatim>\<open>native_pressure\<close>, \<^verbatim>\<open>humidity\<close>,
  \<^verbatim>\<open>native_wind_speed\<close>, \<^verbatim>\<open>wind_bearing\<close> and \<^verbatim>\<open>native_visibility\<close> on
  their paths, and \<^verbatim>\<open>condition\<close> on the icon key, given a condition table with at
  least one entry. So a snapshot without the icon key makes \<^verbatim>\<open>condition\<close> raise, and
  a value at the end of a path, of whatever type, raises nothing.
\<close>

theorem shape_mismatch_surfaces:
  "(native_temperature K self = Inl e \<longleftrightarrow>
      path_failure (data (coordinator self)) [''Temperature'', API_METRIC K, ''Value''] = Some e) \<and>
   (native_pressure K self = Inl e \<longleftrightarrow>
      path_failure (data (coordinator self)) [''Pressure'', API_METRIC K, ''Value''] = Some e) \<and>
   (humidity K self = Inl e \<longleftrightarrow>
      path_failure (data (coordinator self)) [''RelativeHumidity''] = Some e) \<and>
   (native_wind_speed K self = Inl e \<longleftrightarrow>
      path_failure (data (coordinator self)) [''Wind'', ''Speed'', API_METRIC K, ''Value''] = Some e) \<and>
   (wind_bearing K self = Inl e \<longleftrightarrow>
      path_failure (data (coordinator self)) [''Wind'', ''Direction'', ''Degrees''] = Some e) \<and>
   (native_visibility K self = Inl e \<longleftrightarrow>
      path_failure (data (coordinator self)) [''Visibility'', API_METRIC K, ''Value''] = Some e) \<and>
   (CONDITION_CLASSES K \<noteq> [] \<longrightarrow>
      (condition K self = Inl e \<longleftrightarrow>
         path_failure (data (coordinator self)) [''WeatherIcon''] = Some e)) \<and>
   (path_failure (data (coordinator self)) p = Some e \<longrightarrow> e = KeyError \<or> e = TypeError)"
  unfolding native_temperature_def native_pressure_def humidity_def native_wind_speed_def
    wind_bearing_def native_visibility_def
  using condition_raises_iff [of K self e] path_failure_kind [of "data (coordinator self)" p e]
  by (simp only: subscripts_raises_iff) blast

text \<open>
  A temperature that is a string where a mapping is expected, a temperature mapping
  without the metric key, and a snapshot without the icon key.
\<close>

theorem shape_mismatch_surfaces_witness:
  "native_temperature example_consts (example_entity (PDict [(''Temperature'', PStr ''n/a'')]) PNone)
     = Inl TypeError \<and>
   native_temperature example_consts (example_entity (PDict [(''Temperature'', PDict [])]) PNone)
     = Inl KeyError \<and>
   condition example_consts (example_entity (PDict [(''Temperature'', PStr ''n/a'')]) PNone)
     = Inl KeyError"
proof (intro conjI)
  have t: "CONDITION_CLASSES example_consts \<noteq> []"
    by (simp add: example_classes_def)
  show "native_temperature example_consts (example_entity (PDict [(''Temperature'', PStr ''n/a'')]) PNone)
     = Inl TypeError"
    using shape_mismatch_surfaces
      [of example_consts "example_entity (PDict [(''Temperature'', PStr ''n/a'')]) PNone" TypeError]
    by simp
  show "native_temperature example_consts (example_entity (PDict [(''Temperature'', PDict [])]) PNone)
     = Inl KeyError"
    using shape_mismatch_surfaces
      [of example_consts "example_entity (PDict [(''Temperature'', PDict [])]) PNone" KeyError]
    by simp
  show "condition example_consts (example_entity (PDict [(''Temperature'', PStr ''n/a'')]) PNone)
     = Inl KeyError"
    using shape_mismatch_surfaces
      [of example_consts "example_entity (PDict [(''Temperature'', PStr ''n/a'')]) PNone" KeyError] t
    by simp
qed

text \<open>
  C5 as it is stated fails for a value of the wrong type at the end of a path, which is no
  failure of the path: a temperature that is the string hot is returned as it is, and an
  icon code that is a string or None makes \<^verbatim>\<open>condition\<close> return None, the handler
  of the IndexError hiding the mismatch.
\<close>

theorem shape_mismatch_leaf_counterexample:
  "path_failure (PDict [(''Temperature'', PDict [(''Metric'', PDict [(''Value'', PStr ''hot'')])])])
     [''Temperature'', ''Metric'', ''Value''] = None \<and>
   native_temperature example_consts
     (example_entity
        (PDict [(''Temperature'', PDict [(''Metric'', PDict [(''Value'', PStr ''hot'')])])]) PNone)
     = Inr (PStr ''hot'') \<and>
   condition example_consts (example_entity (PDict [(''WeatherIcon'', PStr ''33'')]) PNone)
     = Inr None \<and>
   condition example_consts (example_entity (PDict [(''WeatherIcon'', PNone)]) PNone)
     = Inr None"
  by code_simp

section \<open>Construction\<close>

text \<open>
  C9. The unique identifier of an entity is the location key of the coordinator it was
  constructed on, so two coordinators with different location keys give entities with
  different unique identifiers.
\<close>

theorem unique_id_is_location_key:
  "attr_unique_id (init K c) = location_key c \<and>
   (location_key c1 \<noteq> location_key c2 \<longrightarrow>
      attr_unique_id (init K c1) \<noteq> attr_unique_id (init K c2))"
  by (simp add: init_def)

theorem unique_id_is_location_key_witness:
  "attr_unique_id (init example_consts (example_coordinator ''2-274663_1_AL'' PNone PNone))
     = ''2-274663_1_AL'' \<and>
   attr_unique_id (init example_consts (example_coordinator ''2-274663_1_AL'' PNone PNone))
     \<noteq> attr_unique_id (init example_consts (example_coordinator ''1-349727_1_AL'' PNone PNone))"
  using unique_id_is_location_key
    [of example_consts "example_coordinator ''2-274663_1_AL'' PNone PNone"
        "example_coordinator ''2-274663_1_AL'' PNone PNone"
        "example_coordinator ''1-349727_1_AL'' PNone PNone"]
  by (auto simp add: example_coordinator_def)

section \<open>The forecast\<close>



text \<open>
  C1, as the code has it. \<^verbatim>\<open>forecast\<close> returns None exactly when the coordinator's
  forecast attribute is falsy, whatever the data holds; when the attribute is truthy and
  the data holds an empty list under the forecast key, it returns the empty list. The two
  results differ.
\<close>

theorem forecast_absent_iff_attribute_falsy:
  "(forecast K self = Inr None \<longleftrightarrow> \<not> truthy (coordinator_forecast (coordinator self))) \<and>
   (truthy (coordinator_forecast (coordinator self)) \<and>
    subscript (data (coordinator self)) (ATTR_FORECAST K) = Inr (PList [])
    \<longrightarrow> forecast K self = Inr (Some []))"
  by (auto simp add: forecast_def and_then_def split: sum.splits)

theorem forecast_absent_iff_attribute_falsy_witness:
  "forecast example_consts (example_entity (PDict [(''forecast'', PList [])]) (PBool True)) = Inr (Some []) \<and>
   forecast example_consts (example_entity (PDict [(''forecast'', PList [example_day 0 1])]) (PBool False)) = Inr None"
  using forecast_absent_iff_attribute_falsy
      [of example_consts "example_entity (PDict [(''forecast'', PList [])]) (PBool True)"]
    forecast_absent_iff_attribute_falsy
      [of example_consts "example_entity (PDict [(''forecast'', PList [example_day 0 1])]) (PBool False)"]
  by simp

text \<open>
  C1 as it is stated fails both ways: with a falsy forecast attribute, data that holds an
  empty forecast list gives None and not the empty list; with a truthy one, data without
  the forecast key gives a KeyError and not None.
\<close>

theorem forecast_empty_list_counterexample:
  "subscript (data (coordinator (example_entity (PDict [(''forecast'', PList [])]) (PBool False))))
       (ATTR_FORECAST example_consts) = Inr (PList []) \<and>
   forecast example_consts (example_entity (PDict [(''forecast'', PList [])]) (PBool False)) = Inr None \<and>
   forecast example_consts (example_entity (PDict [(''forecast'', PList [])]) (PBool False)) \<noteq> Inr (Some []) \<and>
   subscript (data (coordinator (example_entity (PDict []) (PBool True))))
       (ATTR_FORECAST example_consts) = Inl KeyError \<and>
   forecast example_consts (example_entity (PDict []) (PBool True)) = Inl KeyError"
  by (simp add: forecast_def)



text \<open>
  C2, as the code has it. In \<^verbatim>\<open>forecast\<close> the condition of an entry is
  \<^verbatim>\<open>[...][0]\<close> with no handler around it, unlike in \<^verbatim>\<open>condition\<close>: when the
  icon code of any item of the forecast list stands under no name of the table,
  \<^verbatim>\<open>forecast\<close> raises and returns no list at all.
\<close>

theorem forecast_raises_on_miss:
  assumes "truthy (coordinator_forecast (coordinator self))"
    and "subscript (data (coordinator self)) (ATTR_FORECAST K) = Inr (PList items)"
    and "i < length items"
    and "subscript (items ! i) ''IconDay'' = Inr icon"
    and "list_all (\<lambda>(k, v). \<not> py_in icon v) (CONDITION_CLASSES K)"
  shows "\<exists>e. forecast K self = Inl e"
proof (cases "forecast K self")
  case (Inl e)
  then show ?thesis by blast
next
  case (Inr r)
  then obtain entries where "forecast K self = Inr (Some entries)"
    using forecast_not_None [OF assms(1), of K] by (cases r) auto
  then have "forecast_item K (items ! i) = Inr (entries ! i)"
    using forecast_Some_nth [OF assms(1,2) _ assms(3)] by blast
  then show ?thesis
    using forecast_item_miss [OF assms(4,5)] by simp
qed

text \<open>
  Two well-formed days, the second with the icon code 99 that the example table does not
  hold: the IndexError of \<^verbatim>\<open>[0]\<close> leaves \<^verbatim>\<open>forecast\<close>.
\<close>

theorem forecast_raises_on_miss_witness:
  "(\<exists>e. forecast example_consts
          (example_forecast_entity [example_day 0 1, example_day 86400 99] (PBool True)) = Inl e) \<and>
   forecast example_consts
     (example_forecast_entity [example_day 0 1, example_day 86400 99] (PBool True)) = Inl IndexError"
proof
  show "\<exists>e. forecast example_consts
          (example_forecast_entity [example_day 0 1, example_day 86400 99] (PBool True)) = Inl e"
    by (rule forecast_raises_on_miss
          [where items = "[example_day 0 1, example_day 86400 99]" and i = 1 and icon = "PInt 99"])
       (simp_all add: example_day_def example_classes_def py_in_def)
next
  show "forecast example_consts
     (example_forecast_entity [example_day 0 1, example_day 86400 99] (PBool True)) = Inl IndexError"
    by code_simp
qed

text \<open>
  C6. When the coordinator's forecast attribute is truthy and the data holds, under the
  forecast key, a list of well-formed days with the integer timestamps \<open>ts\<close>,
  \<^verbatim>\<open>forecast\<close> returns one entry per day, and for every day the timestamp is
  converted: the time of the entry is the ISO-8601 form of the instant that
  \<^verbatim>\<open>utc_from_timestamp\<close> returns for the day's timestamp, this string read back as an
  instant in UTC lies exactly that many seconds after 1970-01-01T00:00:00 UTC, and for the
  timestamp 0 it is 1970-01-01T00:00:00+00:00.
\<close>

theorem forecast_time_utc_iso:
  assumes "truthy (coordinator_forecast (coordinator self))"
    and "subscript (data (coordinator self)) (ATTR_FORECAST K) = Inr (PList items)"
    and "list_all2 (well_formed_day K) items ts"
  shows "\<exists>entries. forecast K self = Inr (Some entries) \<and> length entries = length items \<and>
           (\<forall>i<length items.
              \<exists>dt. utc_from_timestamp (PInt (ts ! i)) = Inr dt \<and>
                   forecast_time (entries ! i) = isoformat dt \<and>
                   read_isoformat (forecast_time (entries ! i)) = Some (ts ! i) \<and>
                   (ts ! i = 0 \<longrightarrow> forecast_time (entries ! i) = ''1970-01-01T00:00:00+00:00''))"
proof -
  obtain entries where c: "comprehension (forecast_item K) items = Inr entries"
    and t: "list_all2 (\<lambda>entry t. \<exists>dt. utc_from_timestamp (PInt t) = Inr dt \<and>
                        forecast_time entry = isoformat dt \<and>
                        read_isoformat (isoformat dt) = Some t) entries ts"
    using comprehension_well_formed [OF assms(3)] by blast
  have f: "forecast K self = Inr (Some entries)"
    using assms(1,2) c by (simp add: forecast_truthy)
  have len: "length entries = length items" "length ts = length items"
    using list_all2_lengthD [OF comprehension_Inr_D [OF c]] list_all2_lengthD [OF assms(3)]
    by simp_all
  have "\<exists>dt. utc_from_timestamp (PInt (ts ! i)) = Inr dt \<and>
             forecast_time (entries ! i) = isoformat dt \<and>
             read_isoformat (forecast_time (entries ! i)) = Some (ts ! i) \<and>
             (ts ! i = 0 \<longrightarrow> forecast_time (entries ! i) = ''1970-01-01T00:00:00+00:00'')"
    if i: "i < length items" for i
  proof -
    obtain dt where dt: "utc_from_timestamp (PInt (ts ! i)) = Inr dt"
      "forecast_time (entries ! i) = isoformat dt" "read_isoformat (isoformat dt) = Some (ts ! i)"
      using t i len by (auto simp add: list_all2_conv_all_nth)
    have "isoformat dt = ''1970-01-01T00:00:00+00:00''" if z: "ts ! i = 0"
      using utc_from_timestamp_epoch dt(1) z by simp
    then show ?thesis
      using dt by auto
  qed
  then show ?thesis
    using f len by blast
qed

text \<open>The five example days, from 1970-01-01 to 1970-01-05.\<close>

theorem forecast_time_utc_iso_witness:
  "forecast example_consts (example_forecast_entity example_days (PBool True))
     = Inr (Some example_entries) \<and>
   forecast_time (example_entries ! 0) = ''1970-01-01T00:00:00+00:00'' \<and>
   read_isoformat (forecast_time (example_entries ! 0)) = Some 0 \<and>
   read_isoformat (forecast_time (example_entries ! 1)) = Some 86400 \<and>
   read_isoformat (forecast_time (example_entries ! 4)) = Some 345600"
proof -
  let ?self = "example_forecast_entity example_days (PBool True)"
  have h1: "truthy (coordinator_forecast (coordinator ?self))"
    by simp
  have h2: "subscript (data (coordinator ?self)) (ATTR_FORECAST example_consts)
              = Inr (PList example_days)"
    by simp
  have h3: "list_all2 (well_formed_day example_consts) example_days example_timestamps"
    by code_simp
  have r: "forecast example_consts ?self = Inr (Some example_entries)"
    by code_simp
  have n: "length example_days = 5" "example_timestamps ! 0 = 0" "example_timestamps ! 1 = 86400"
    "example_timestamps ! 4 = 345600"
    by (simp_all add: example_days_def example_timestamps_def)
  from forecast_time_utc_iso [OF h1 h2 h3] r
  have all: "\<forall>i<length example_days.
              \<exists>dt. utc_from_timestamp (PInt (example_timestamps ! i)) = Inr dt \<and>
                   forecast_time (example_entries ! i) = isoformat dt \<and>
                   read_isoformat (forecast_time (example_entries ! i)) = Some (example_timestamps ! i) \<and>
                   (example_timestamps ! i = 0 \<longrightarrow>
                      forecast_time (example_entries ! i) = ''1970-01-01T00:00:00+00:00'')"
    by auto
  have "0 < length example_days" "1 < length example_days" "4 < length example_days"
    using n(1) by simp_all
  from all [rule_format, OF this(1)] all [rule_format, OF this(2)] all [rule_format, OF this(3)]
  show ?thesis
    using r unfolding n by blast
qed


end
